theory Spec2Isabelle
  imports Main "HOL-Library.Word"
begin

section \<open>Instrumented allocator (\<^verbatim>\<open>src/memory.c\<close>, \<^verbatim>\<open>include/memory.h\<close>)\<close>

text \<open>
  \<^verbatim>\<open>usize\<close> is \<^verbatim>\<open>size_t\<close>: an unsigned machine integer whose width depends on the
  platform. It is modelled as \<open>'w word\<close>, so that \<open>+\<close> and \<open>*\<close> wrap modulo
  \<open>2 ^ LENGTH('w)\<close> exactly as unsigned arithmetic does in C, and every theorem holds at
  every width.

  A generic pointer (\<^verbatim>\<open>ptr\<close>, i.e. \<^verbatim>\<open>void *\<close>) is either \<open>NULL\<close> or the address of a
  block. The C test \<^verbatim>\<open>if(p)\<close> is \<open>p \<noteq> NULL\<close>.
\<close>

datatype ptr = NULL | Block nat

record (overloaded) ('w::len) Memory_Stats =
  total_allocated :: "'w word"
  total_freed :: "'w word"
  current_usage :: "'w word"
  peak_usage :: "'w word"
  allocation_count :: "'w word"
  free_count :: "'w word"

text \<open>\<^verbatim>\<open>static Memory_Stats stats = {0};\<close> and the compound literal \<^verbatim>\<open>(Memory_Stats){0}\<close>.\<close>

definition stats_zero :: "('w::len) Memory_Stats" where
  "stats_zero = \<lparr>total_allocated = 0, total_freed = 0, current_usage = 0,
                 peak_usage = 0, allocation_count = 0, free_count = 0\<rparr>"

text \<open>
  The global \<^verbatim>\<open>stats\<close> is threaded through every function: each one takes the aggregate
  and returns it updated, next to its C return value. The calls into the C library
  (\<^verbatim>\<open>malloc\<close>, \<^verbatim>\<open>calloc\<close>, \<^verbatim>\<open>realloc\<close>) are outside the repository; the pointer they
  hand back is the first argument \<open>result\<close> of the model, named after the local variable
  that receives it in the source. \<^verbatim>\<open>free\<close> returns nothing and touches no statistics.
\<close>

definition ds_malloc ::
  "ptr \<Rightarrow> ('w::len) word \<Rightarrow> 'w Memory_Stats \<Rightarrow> ptr \<times> 'w Memory_Stats" where
  "ds_malloc result sz stats =
     (if result \<noteq> NULL then
        let stats = stats\<lparr>total_allocated := total_allocated stats + sz\<rparr>;
            stats = stats\<lparr>current_usage := current_usage stats + sz\<rparr>;
            stats = stats\<lparr>allocation_count := allocation_count stats + 1\<rparr>;
            stats = (if current_usage stats > peak_usage stats
                     then stats\<lparr>peak_usage := current_usage stats\<rparr> else stats)
        in (result, stats)
      else (result, stats))"

definition ds_calloc ::
  "ptr \<Rightarrow> ('w::len) word \<Rightarrow> 'w word \<Rightarrow> 'w Memory_Stats \<Rightarrow> ptr \<times> 'w Memory_Stats" where
  "ds_calloc result count sz stats =
     (let total_size = count * sz in
      if result \<noteq> NULL then
        let stats = stats\<lparr>total_allocated := total_allocated stats + total_size\<rparr>;
            stats = stats\<lparr>current_usage := current_usage stats + total_size\<rparr>;
            stats = stats\<lparr>allocation_count := allocation_count stats + 1\<rparr>;
            stats = (if current_usage stats > peak_usage stats
                     then stats\<lparr>peak_usage := current_usage stats\<rparr> else stats)
        in (result, stats)
      else (result, stats))"

definition ds_realloc ::
  "ptr \<Rightarrow> ptr \<Rightarrow> ('w::len) word \<Rightarrow> 'w Memory_Stats \<Rightarrow> ptr \<times> 'w Memory_Stats" where
  "ds_realloc result pointer new_size stats =
     (if result \<noteq> NULL \<and> new_size > 0 then
        let stats = stats\<lparr>total_allocated := total_allocated stats + new_size\<rparr>;
            stats = stats\<lparr>current_usage := current_usage stats + new_size\<rparr>
        in (result, stats)
      else (result, stats))"

definition ds_free :: "ptr \<Rightarrow> ('w::len) Memory_Stats \<Rightarrow> 'w Memory_Stats" where
  "ds_free pointer stats =
     (if pointer \<noteq> NULL then stats\<lparr>free_count := free_count stats + 1\<rparr> else stats)"

definition ds_alloc_array ::
  "ptr \<Rightarrow> ('w::len) word \<Rightarrow> 'w word \<Rightarrow> 'w Memory_Stats \<Rightarrow> ptr \<times> 'w Memory_Stats" where
  "ds_alloc_array result count element_size stats = ds_calloc result count element_size stats"

definition ds_realloc_array ::
  "ptr \<Rightarrow> ptr \<Rightarrow> ('w::len) word \<Rightarrow> 'w word \<Rightarrow> 'w Memory_Stats \<Rightarrow> ptr \<times> 'w Memory_Stats" where
  "ds_realloc_array result array new_count element_size stats =
     ds_realloc result array (new_count * element_size) stats"

definition ds_get_memory_stats :: "('w::len) Memory_Stats \<Rightarrow> 'w Memory_Stats" where
  "ds_get_memory_stats stats = stats"

definition ds_reset_memory_stats :: "('w::len) Memory_Stats \<Rightarrow> 'w Memory_Stats" where
  "ds_reset_memory_stats stats = stats_zero"

text \<open>
  \<^verbatim>\<open>#define ALLOC(type) ((type *)ds_malloc(sizeof(type)))\<close>; the size of the type is an
  argument of the model.
\<close>

definition ALLOC :: "ptr \<Rightarrow> ('w::len) word \<Rightarrow> 'w Memory_Stats \<Rightarrow> ptr \<times> 'w Memory_Stats" where
  "ALLOC result sizeof_type stats = ds_malloc result sizeof_type stats"

subsection \<open>Sequences of calls\<close>

text \<open>
  A client of the allocator is a sequence of calls on the shared aggregate. Each call
  records its arguments and, for the three allocating functions, what the C library
  answered. \<open>run\<close> performs the calls from left to right.
\<close>

datatype 'sz call =
    Call_malloc ptr 'sz
  | Call_calloc ptr 'sz 'sz
  | Call_realloc ptr ptr 'sz
  | Call_free ptr
  | Call_reset

fun apply_call :: "('w::len) word call \<Rightarrow> 'w Memory_Stats \<Rightarrow> 'w Memory_Stats" where
  "apply_call (Call_malloc result sz) stats = snd (ds_malloc result sz stats)"
| "apply_call (Call_calloc result count sz) stats = snd (ds_calloc result count sz stats)"
| "apply_call (Call_realloc result pointer new_size) stats =
     snd (ds_realloc result pointer new_size stats)"
| "apply_call (Call_free pointer) stats = ds_free pointer stats"
| "apply_call Call_reset stats = ds_reset_memory_stats stats"

definition run :: "('w::len) word call list \<Rightarrow> 'w Memory_Stats \<Rightarrow> 'w Memory_Stats" where
  "run calls stats = fold apply_call calls stats"

text \<open>
  The calls that run the peak update of the source: a \<open>ds_malloc\<close> or \<open>ds_calloc\<close> whose
  library call succeeded. \<open>observed\<close> lists the values of \<open>current_usage\<close> right after
  each of them, in order.
\<close>

fun allocating :: "'sz call \<Rightarrow> bool" where
  "allocating (Call_malloc result sz) = (result \<noteq> NULL)"
| "allocating (Call_calloc result count sz) = (result \<noteq> NULL)"
| "allocating (Call_realloc result pointer new_size) = False"
| "allocating (Call_free pointer) = False"
| "allocating Call_reset = False"

fun observed :: "('w::len) word call list \<Rightarrow> 'w Memory_Stats \<Rightarrow> 'w word list" where
  "observed [] stats = []"
| "observed (c # cs) stats =
     (if allocating c then [current_usage (apply_call c stats)] else [])
       @ observed cs (apply_call c stats)"

section \<open>Result contract (\<^verbatim>\<open>include/error.h\<close>, \<^verbatim>\<open>src/error_handling.c\<close>)\<close>

text \<open>
  \<^verbatim>\<open>Result_Code\<close> is a C enumeration: an integer type whose named values are \<open>0\<close> to
  \<open>13\<close>, and which can hold other integers as well. It is modelled as \<open>int\<close>, with the
  enumerators as constants in the order of their declaration.
\<close>

type_synonym Result_Code = int

definition DS_SUCCESS :: Result_Code where "DS_SUCCESS = 0"
definition DS_ERROR_INVALID_ARGUMENT :: Result_Code where "DS_ERROR_INVALID_ARGUMENT = 1"
definition DS_ERROR_MEMORY_ALLOCATION :: Result_Code where "DS_ERROR_MEMORY_ALLOCATION = 2"
definition DS_ERROR_INDEX_OUT_OF_BOUNDS :: Result_Code where "DS_ERROR_INDEX_OUT_OF_BOUNDS = 3"
definition DS_ERROR_EMPTY_CONTAINER :: Result_Code where "DS_ERROR_EMPTY_CONTAINER = 4"
definition DS_ERROR_FULL_CONTAINER :: Result_Code where "DS_ERROR_FULL_CONTAINER = 5"
definition DS_ERROR_NOT_FOUND :: Result_Code where "DS_ERROR_NOT_FOUND = 6"
definition DS_ERROR_DUPLICATE :: Result_Code where "DS_ERROR_DUPLICATE = 7"
definition DS_ERROR_OVERFLOW :: Result_Code where "DS_ERROR_OVERFLOW = 8"
definition DS_ERROR_UNDERFLOW :: Result_Code where "DS_ERROR_UNDERFLOW = 9"
definition DS_ERROR_NULL_POINTER :: Result_Code where "DS_ERROR_NULL_POINTER = 10"
definition DS_ERROR_CORRUPTED_DATA :: Result_Code where "DS_ERROR_CORRUPTED_DATA = 11"
definition DS_ERROR_NOT_IMPLEMENTED :: Result_Code where "DS_ERROR_NOT_IMPLEMENTED = 12"
definition DS_ERROR_UNKNOWN :: Result_Code where "DS_ERROR_UNKNOWN = 13"

record Result =
  code :: Result_Code
  message :: string
  "file" :: string
  line :: int

text \<open>
  \<^verbatim>\<open>RESULT_SUCCESS\<close> and \<^verbatim>\<open>RESULT_ERROR(code, msg)\<close> build a \<open>Result\<close> from the place of
  their expansion, \<^verbatim>\<open>__FILE__\<close> and \<^verbatim>\<open>__LINE__\<close>, which the model takes as arguments.
\<close>

definition RESULT_SUCCESS :: "string \<Rightarrow> int \<Rightarrow> Result" where
  "RESULT_SUCCESS FILE LINE =
     \<lparr>code = DS_SUCCESS, message = ''Success.'', file = FILE, line = LINE\<rparr>"

definition RESULT_ERROR :: "Result_Code \<Rightarrow> string \<Rightarrow> string \<Rightarrow> int \<Rightarrow> Result" where
  "RESULT_ERROR c msg FILE LINE = \<lparr>code = c, message = msg, file = FILE, line = LINE\<rparr>"

text \<open>The \<^verbatim>\<open>switch\<close> of \<^verbatim>\<open>result_description\<close>, case by case, with its \<^verbatim>\<open>default\<close>.\<close>

definition result_description :: "Result_Code \<Rightarrow> string" where
  "result_description c =
     (if c = DS_SUCCESS then ''Success.''
      else if c = DS_ERROR_INVALID_ARGUMENT then ''Invalid argument.''
      else if c = DS_ERROR_MEMORY_ALLOCATION then ''Memory allocation failed.''
      else if c = DS_ERROR_INDEX_OUT_OF_BOUNDS then ''Index out of bounds.''
      else if c = DS_ERROR_EMPTY_CONTAINER then ''Container is empty.''
      else if c = DS_ERROR_FULL_CONTAINER then ''Container is full.''
      else if c = DS_ERROR_NOT_FOUND then ''Element not found.''
      else if c = DS_ERROR_DUPLICATE then ''Duplicate element.''
      else if c = DS_ERROR_OVERFLOW then ''Overflow occurred.''
      else if c = DS_ERROR_UNDERFLOW then ''Underflow occurred.''
      else if c = DS_ERROR_NULL_POINTER then ''Null pointer.''
      else if c = DS_ERROR_CORRUPTED_DATA then ''Data corrupted.''
      else if c = DS_ERROR_NOT_IMPLEMENTED then ''Not implemented.''
      else ''Unknown error.'')"

definition result_is_success :: "Result \<Rightarrow> bool" where
  "result_is_success result = (code result = DS_SUCCESS)"

definition result_is_error :: "Result \<Rightarrow> bool" where
  "result_is_error result = (code result \<noteq> DS_SUCCESS)"

text \<open>
  \<^verbatim>\<open>CHECK_RESULT(expr)\<close> is a statement of a function that returns a \<open>Result\<close>: it
  evaluates \<^verbatim>\<open>expr\<close> once into \<^verbatim>\<open>_result\<close> and returns it at once when it is an error.
  Otherwise control falls through to the statements after the macro; \<open>rest\<close> is what they
  make the enclosing function return.
\<close>

definition CHECK_RESULT :: "Result \<Rightarrow> Result \<Rightarrow> Result" where
  "CHECK_RESULT expr rest = (let result = expr in if result_is_error result then result else rest)"

text \<open>
  \<^verbatim>\<open>CHECKED_ALLOC(ptr, type)\<close> assigns \<^verbatim>\<open>ALLOC(type)\<close> to \<^verbatim>\<open>ptr\<close> and makes the enclosing
  function return an error when the pointer is null. The message is the literal
  \<^verbatim>\<open>"Failed to allocate "\<close> followed by the stringified type (\<^verbatim>\<open>#type\<close>). The statements
  after the macro, \<open>rest\<close>, see the pointer and the updated statistics.
\<close>

definition CHECKED_ALLOC ::
  "ptr \<Rightarrow> string \<Rightarrow> ('w::len) word \<Rightarrow> string \<Rightarrow> int \<Rightarrow>
   (ptr \<Rightarrow> 'w Memory_Stats \<Rightarrow> Result \<times> 'w Memory_Stats) \<Rightarrow>
   'w Memory_Stats \<Rightarrow> Result \<times> 'w Memory_Stats" where
  "CHECKED_ALLOC result type_name sizeof_type FILE LINE rest stats =
     (case ALLOC result sizeof_type stats of
        (p, stats) \<Rightarrow>
          if p = NULL
          then (RESULT_ERROR DS_ERROR_MEMORY_ALLOCATION (''Failed to allocate '' @ type_name)
                  FILE LINE, stats)
          else rest p stats)"

section \<open>Failed allocations\<close>

lemmas Result_Code_defs =
  DS_SUCCESS_def DS_ERROR_INVALID_ARGUMENT_def DS_ERROR_MEMORY_ALLOCATION_def
  DS_ERROR_INDEX_OUT_OF_BOUNDS_def DS_ERROR_EMPTY_CONTAINER_def DS_ERROR_FULL_CONTAINER_def
  DS_ERROR_NOT_FOUND_def DS_ERROR_DUPLICATE_def DS_ERROR_OVERFLOW_def DS_ERROR_UNDERFLOW_def
  DS_ERROR_NULL_POINTER_def DS_ERROR_CORRUPTED_DATA_def DS_ERROR_NOT_IMPLEMENTED_def
  DS_ERROR_UNKNOWN_def


text \<open>
  Claim C4. When the underlying allocator fails, that is when \<^verbatim>\<open>malloc\<close> or \<^verbatim>\<open>calloc\<close>
  hands back the null pointer, \<open>ds_malloc\<close> and \<open>ds_calloc\<close> return the null pointer and
  the statistics aggregate after the call equals the aggregate before it, for every
  requested size and every prior aggregate.
\<close>

theorem failed_allocation_keeps_stats:
  "ds_malloc NULL sz stats = (NULL, stats) \<and> ds_calloc NULL count sz stats = (NULL, stats)"
  by (simp add: ds_malloc_def ds_calloc_def)

section \<open>A first allocation\<close>

text \<open>
  Claim C5. Starting from the all-zero aggregate, a single successful \<open>ds_malloc\<close> of
  \<open>n\<close> bytes leaves \<open>total_allocated = n\<close>, \<open>current_usage = n\<close>, \<open>peak_usage = n\<close> and
  \<open>allocation_count = 1\<close> (the two release fields stay zero), for every \<open>n\<close>.
\<close>

theorem first_malloc_stats:
  "result \<noteq> NULL \<Longrightarrow>
     ds_malloc result n stats_zero =
       (result, \<lparr>total_allocated = n, total_freed = 0, current_usage = n,
                 peak_usage = n, allocation_count = 1, free_count = 0\<rparr>)"
  by (auto simp add: ds_malloc_def stats_zero_def word_greater_zero_iff Let_def)

theorem first_malloc_stats_witness:
  "Block 1 \<noteq> NULL \<and>
   ds_malloc (Block 1) (100 :: 64 word) stats_zero =
     (Block 1, \<lparr>total_allocated = 100, total_freed = 0, current_usage = 100,
                peak_usage = 100, allocation_count = 1, free_count = 0\<rparr>)"
  using first_malloc_stats [of "Block 1" "100 :: 64 word"] by simp

section \<open>Resizing\<close>

text \<open>
  Claim C2. For every input pointer (null or a block) and every \<open>new_size > 0\<close>, a
  successful \<open>ds_realloc\<close> adds exactly \<open>new_size\<close> to \<open>total_allocated\<close> and exactly
  \<open>new_size\<close> to \<open>current_usage\<close> (in the arithmetic of \<^verbatim>\<open>usize\<close>), subtracts nothing for
  the block it was given, and leaves every other field of the aggregate as it was.
\<close>

theorem realloc_adds_new_size:
  "result \<noteq> NULL \<Longrightarrow> 0 < new_size \<Longrightarrow>
     ds_realloc result pointer new_size stats =
       (result, stats\<lparr>total_allocated := total_allocated stats + new_size,
                       current_usage := current_usage stats + new_size\<rparr>)"
  by (simp add: ds_realloc_def Let_def)

theorem realloc_adds_new_size_witness:
  "Block 2 \<noteq> NULL \<and> (0 :: 64 word) < 50 \<and>
   ds_realloc (Block 2) (Block 1) (50 :: 64 word)
     \<lparr>total_allocated = 100, total_freed = 0, current_usage = 100,
      peak_usage = 100, allocation_count = 1, free_count = 0\<rparr> =
     (Block 2, \<lparr>total_allocated = 150, total_freed = 0, current_usage = 150,
                peak_usage = 100, allocation_count = 1, free_count = 0\<rparr>)"
  using realloc_adds_new_size [of "Block 2" "50 :: 64 word" "Block 1"
    "\<lparr>total_allocated = 100, total_freed = 0, current_usage = 100,
      peak_usage = 100, allocation_count = 1, free_count = 0\<rparr>"]
  by simp

section \<open>Releasing\<close>

text \<open>
  Claim C3. In every state of the aggregate, \<open>ds_free\<close> of the null pointer changes no
  field at all, and \<open>ds_free\<close> of a real block increments \<open>free_count\<close> by exactly one and
  leaves \<open>total_allocated\<close>, \<open>total_freed\<close>, \<open>current_usage\<close>, \<open>peak_usage\<close> and
  \<open>allocation_count\<close> unchanged.
\<close>

theorem free_counts_only:
  "ds_free NULL stats = stats \<and>
   ds_free (Block a) stats = stats\<lparr>free_count := free_count stats + 1\<rparr> \<and>
   total_allocated (ds_free (Block a) stats) = total_allocated stats \<and>
   total_freed (ds_free (Block a) stats) = total_freed stats \<and>
   current_usage (ds_free (Block a) stats) = current_usage stats \<and>
   peak_usage (ds_free (Block a) stats) = peak_usage stats \<and>
   allocation_count (ds_free (Block a) stats) = allocation_count stats \<and>
   free_count (ds_free (Block a) stats) = free_count stats + 1"
  by (simp add: ds_free_def)

section \<open>Array helpers\<close>

text \<open>
  Claim C6. \<open>ds_alloc_array count element_size\<close> is \<open>ds_calloc count element_size\<close>, and
  \<open>ds_realloc_array array new_count element_size\<close> is \<open>ds_realloc\<close> of the same pointer
  with the size \<open>new_count * element_size\<close>, a product taken in machine arithmetic: its
  value is the mathematical product modulo \<open>2 ^ w\<close>, with no overflow check. At 64
  bits the product of \<open>2 ^ 63\<close> and \<open>2\<close> wraps to zero.
\<close>

theorem array_helpers_delegate:
  "ds_alloc_array result count element_size stats = ds_calloc result count element_size stats \<and>
   ds_realloc_array result array new_count element_size stats =
     ds_realloc result array (new_count * element_size) stats \<and>
   unat (new_count * element_size) =
     (unat new_count * unat element_size) mod 2 ^ LENGTH('w)"
  for new_count :: "('w::len) word"
  by (simp add: ds_alloc_array_def ds_realloc_array_def unat_word_ariths)

theorem array_helpers_wrap_witness:
  "ds_realloc_array (Block 1) NULL (2 ^ 63) 2 (stats_zero :: 64 Memory_Stats) =
     ds_realloc (Block 1) NULL 0 stats_zero \<and>
   snd (ds_realloc_array (Block 1) NULL (2 ^ 63) 2 (stats_zero :: 64 Memory_Stats)) = stats_zero \<and>
   unat ((2 ^ 63 :: 64 word) * 2) = 0"
  using array_helpers_delegate
    [of "Block 1" 0 2 "stats_zero :: 64 Memory_Stats" NULL "2 ^ 63"]
  by (simp add: ds_realloc_def)

section \<open>Guarded allocation\<close>

text \<open>
  Claim C7. When the underlying allocation refuses the request (\<^verbatim>\<open>malloc\<close> hands back the
  null pointer), \<open>CHECKED_ALLOC\<close> makes the enclosing function return, in place of a null
  value, an error \<open>Result\<close> of kind \<open>DS_ERROR_MEMORY_ALLOCATION\<close> whose message is
  \<^verbatim>\<open>"Failed to allocate "\<close> followed by the name of the requested type; the statements
  after the macro are not run and the statistics aggregate is left as it was.
\<close>

theorem checked_alloc_failure:
  "CHECKED_ALLOC NULL type_name sizeof_type FILE LINE rest stats =
     (\<lparr>code = DS_ERROR_MEMORY_ALLOCATION, message = ''Failed to allocate '' @ type_name,
       file = FILE, line = LINE\<rparr>, stats) \<and>
   result_is_error (fst (CHECKED_ALLOC NULL type_name sizeof_type FILE LINE rest stats))"
  by (simp add: CHECKED_ALLOC_def ALLOC_def ds_malloc_def RESULT_ERROR_def result_is_error_def
      DS_ERROR_MEMORY_ALLOCATION_def DS_SUCCESS_def)

section \<open>Propagation\<close>

text \<open>
  Claim C8. For every outcome \<open>r\<close> of a fallible sub-call: when \<open>r\<close> is an error,
  \<open>CHECK_RESULT\<close> makes the enclosing function return exactly \<open>r\<close>, the same in code,
  message, file and line, with no wrapping and no rewriting; when \<open>r\<close> is a success, the
  enclosing function carries on with the statements that follow.
\<close>

theorem check_result_propagates:
  "(result_is_error r \<longrightarrow> CHECK_RESULT r rest = r) \<and>
   (result_is_success r \<longrightarrow> CHECK_RESULT r rest = rest)"
  by (simp add: CHECK_RESULT_def result_is_error_def result_is_success_def)

theorem check_result_propagates_witness:
  "result_is_error (RESULT_ERROR DS_ERROR_NOT_FOUND ''Element not found in hash table'' ''map.c'' 42) \<and>
   CHECK_RESULT (RESULT_ERROR DS_ERROR_NOT_FOUND ''Element not found in hash table'' ''map.c'' 42)
     (RESULT_SUCCESS ''list.c'' 7) =
     \<lparr>code = DS_ERROR_NOT_FOUND, message = ''Element not found in hash table'',
      file = ''map.c'', line = 42\<rparr> \<and>
   result_is_success (RESULT_SUCCESS ''map.c'' 40) \<and>
   CHECK_RESULT (RESULT_SUCCESS ''map.c'' 40)
     (RESULT_ERROR DS_ERROR_OVERFLOW ''too big'' ''list.c'' 9) =
     RESULT_ERROR DS_ERROR_OVERFLOW ''too big'' ''list.c'' 9"
  using check_result_propagates
      [of "RESULT_ERROR DS_ERROR_NOT_FOUND ''Element not found in hash table'' ''map.c'' 42"
          "RESULT_SUCCESS ''list.c'' 7"]
    check_result_propagates
      [of "RESULT_SUCCESS ''map.c'' 40" "RESULT_ERROR DS_ERROR_OVERFLOW ''too big'' ''list.c'' 9"]
  by (simp add: RESULT_ERROR_def RESULT_SUCCESS_def result_is_error_def result_is_success_def
      DS_ERROR_NOT_FOUND_def DS_SUCCESS_def)

section \<open>Descriptions\<close>

text \<open>
  Claim C9. \<open>result_description\<close> is defined on every code value: it gives each of the
  fourteen enumerated kinds a fixed, non-empty string (the table below), and it gives
  \<open>DS_ERROR_UNKNOWN\<close> and every value outside the enumeration the string
  \<^verbatim>\<open>"Unknown error."\<close>.
\<close>

theorem result_description_total:
  "result_description c \<noteq> [] \<and>
   (c = DS_ERROR_UNKNOWN \<or>
    c \<notin> {DS_SUCCESS, DS_ERROR_INVALID_ARGUMENT, DS_ERROR_MEMORY_ALLOCATION,
          DS_ERROR_INDEX_OUT_OF_BOUNDS, DS_ERROR_EMPTY_CONTAINER, DS_ERROR_FULL_CONTAINER,
          DS_ERROR_NOT_FOUND, DS_ERROR_DUPLICATE, DS_ERROR_OVERFLOW, DS_ERROR_UNDERFLOW,
          DS_ERROR_NULL_POINTER, DS_ERROR_CORRUPTED_DATA, DS_ERROR_NOT_IMPLEMENTED,
          DS_ERROR_UNKNOWN}
      \<longrightarrow> result_description c = ''Unknown error.'') \<and>
   map result_description
     [DS_SUCCESS, DS_ERROR_INVALID_ARGUMENT, DS_ERROR_MEMORY_ALLOCATION,
      DS_ERROR_INDEX_OUT_OF_BOUNDS, DS_ERROR_EMPTY_CONTAINER, DS_ERROR_FULL_CONTAINER,
      DS_ERROR_NOT_FOUND, DS_ERROR_DUPLICATE, DS_ERROR_OVERFLOW, DS_ERROR_UNDERFLOW,
      DS_ERROR_NULL_POINTER, DS_ERROR_CORRUPTED_DATA, DS_ERROR_NOT_IMPLEMENTED,
      DS_ERROR_UNKNOWN] =
     [''Success.'', ''Invalid argument.'', ''Memory allocation failed.'',
      ''Index out of bounds.'', ''Container is empty.'', ''Container is full.'',
      ''Element not found.'', ''Duplicate element.'', ''Overflow occurred.'',
      ''Underflow occurred.'', ''Null pointer.'', ''Data corrupted.'', ''Not implemented.'',
      ''Unknown error.'']"
  by (simp add: result_description_def Result_Code_defs)

theorem result_description_total_witness:
  "result_description DS_ERROR_UNKNOWN = ''Unknown error.'' \<and>
   result_description 99 = ''Unknown error.'' \<and>
   result_description (- 1) = ''Unknown error.'' \<and>
   result_description DS_ERROR_NOT_FOUND = ''Element not found.''"
  using result_description_total [of DS_ERROR_UNKNOWN] result_description_total [of 99]
    result_description_total [of "- 1"]
  by (simp add: Result_Code_defs)

section \<open>Invariants of the aggregate over sequences of calls\<close>

lemmas ds_defs = ds_malloc_def ds_calloc_def ds_realloc_def ds_free_def
  ds_reset_memory_stats_def

lemma run_Nil: "run [] stats = stats"
  by (simp add: run_def)

lemma run_Cons: "run (c # cs) stats = run cs (apply_call c stats)"
  by (simp add: run_def)

lemma run_append: "run (xs @ ys) stats = run ys (run xs stats)"
  by (simp add: run_def)

subsection \<open>Usage and total allocation\<close>

text \<open>
  No function of the source writes \<open>total_freed\<close>, and every function that adds to
  \<open>total_allocated\<close> adds the same amount to \<open>current_usage\<close>. Both facts are kept by
  each call, hence by every sequence of calls.
\<close>

lemma usage_invariant_step:
  assumes "total_freed stats = 0" and "current_usage stats = total_allocated stats"
  shows "total_freed (apply_call c stats) = 0 \<and>
         current_usage (apply_call c stats) = total_allocated (apply_call c stats)"
  using assms by (cases c) (simp_all add: ds_defs stats_zero_def Let_def)

lemma usage_invariant_run:
  assumes "total_freed stats = 0" and "current_usage stats = total_allocated stats"
  shows "total_freed (run calls stats) = 0 \<and>
         current_usage (run calls stats) = total_allocated (run calls stats)"
  using assms
proof (induction calls arbitrary: stats)
  case Nil
  then show ?case by (simp add: run_Nil)
next
  case (Cons c calls)
  from usage_invariant_step [OF Cons.prems]
  have "total_freed (apply_call c stats) = 0"
    and "current_usage (apply_call c stats) = total_allocated (apply_call c stats)"
    by simp_all
  then show ?case
    unfolding run_Cons by (rule Cons.IH)
qed

text \<open>
  Claim C10. In every state reached from the all-zero aggregate by any sequence of
  \<open>ds_malloc\<close>, \<open>ds_calloc\<close>, \<open>ds_realloc\<close>, \<open>ds_free\<close> and \<open>ds_reset_memory_stats\<close> calls
  (successful or not), \<open>total_freed = 0\<close> and \<open>current_usage = total_allocated\<close>, so the
  identity \<open>current_usage = total_allocated - total_freed\<close> holds exactly.
\<close>

theorem usage_equals_total_allocated:
  "total_freed (run calls stats_zero) = 0 \<and>
   current_usage (run calls stats_zero) = total_allocated (run calls stats_zero) \<and>
   current_usage (run calls stats_zero) =
     total_allocated (run calls stats_zero) - total_freed (run calls stats_zero)"
proof -
  have "total_freed (run calls stats_zero) = 0 \<and>
        current_usage (run calls stats_zero) = total_allocated (run calls stats_zero)"
    by (rule usage_invariant_run) (simp_all add: stats_zero_def)
  then show ?thesis by simp
qed

subsection \<open>Peak usage\<close>

text \<open>
  The peak is compared with the current usage, and raised to it, at the end of a
  successful \<open>ds_malloc\<close> or \<open>ds_calloc\<close> and nowhere else; \<open>ds_realloc\<close> raises the current
  usage and leaves the peak alone (\<^verbatim>\<open>// Peak usage is automatically updated in
  malloc/calloc.\<close>), and \<open>ds_reset_memory_stats\<close> zeroes it.
\<close>

lemma peak_after_call:
  assumes "c \<noteq> Call_reset"
  shows "peak_usage (apply_call c stats) =
     (if allocating c then max (peak_usage stats) (current_usage (apply_call c stats))
      else peak_usage stats)"
  using assms by (cases c) (auto simp add: ds_defs Let_def max_def)

lemma Max_insert_max:
  fixes a b :: "'a::linorder"
  assumes "finite S"
  shows "Max (insert (max a b) S) = Max (insert a (insert b S))"
  using assms
  by (metis Max_insert Max_singleton finite_insert insert_not_empty max.assoc)

lemma peak_is_Max_observed:
  assumes "Call_reset \<notin> set calls"
  shows "peak_usage (run calls stats) = Max (set (peak_usage stats # observed calls stats))"
  using assms
proof (induction calls arbitrary: stats)
  case Nil
  show ?case by (simp add: run_Nil)
next
  case (Cons c calls)
  let ?s = "apply_call c stats"
  from Cons.prems have c: "c \<noteq> Call_reset" and rest: "Call_reset \<notin> set calls"
    by auto
  have "peak_usage (run (c # calls) stats) = Max (set (peak_usage ?s # observed calls ?s))"
    unfolding run_Cons by (rule Cons.IH [OF rest])
  also have "\<dots> = Max (set (peak_usage stats # observed (c # calls) stats))"
  proof (cases "allocating c")
    case True
    then have "peak_usage ?s = max (peak_usage stats) (current_usage ?s)"
      by (simp add: peak_after_call [OF c])
    with True show ?thesis
      by (simp add: Max_insert_max)
  next
    case False
    then show ?thesis
      by (simp add: peak_after_call [OF c])
  qed
  finally show ?case .
qed

lemma run_after_reset:
  "run (before @ Call_reset # calls) stats = run calls stats_zero"
  by (simp add: run_append run_Cons ds_reset_memory_stats_def)

lemma peak_monotone_call:
  assumes "c \<noteq> Call_reset"
  shows "peak_usage stats \<le> peak_usage (apply_call c stats)"
  by (simp add: peak_after_call [OF assms])

lemma peak_monotone_run:
  assumes "Call_reset \<notin> set calls"
  shows "peak_usage stats \<le> peak_usage (run calls stats)"
  by (simp add: peak_is_Max_observed [OF assms])

lemma current_le_peak_after_allocating:
  assumes "allocating c"
  shows "current_usage (apply_call c stats) \<le> peak_usage (apply_call c stats)"
proof -
  from assms have "c \<noteq> Call_reset" by auto
  from peak_after_call [OF this] assms show ?thesis by simp
qed

text \<open>
  Claim C1, as the source has it. Between two resets of the statistics:
  \<^item> \<open>peak_usage\<close> is the maximum of its value at the start and of the values of
    \<open>current_usage\<close> observed right after each successful \<open>ds_malloc\<close> or \<open>ds_calloc\<close>;
    after a reset the start value is zero;
  \<^item> right after a successful \<open>ds_malloc\<close> or \<open>ds_calloc\<close>, \<open>peak_usage\<close> is at least
    \<open>current_usage\<close>;
  \<^item> no other call changes \<open>peak_usage\<close>: not \<open>ds_realloc\<close>, successful or not, not
    \<open>ds_free\<close>, not a failed allocation;
  \<^item> \<open>peak_usage\<close> never decreases, call by call and over a whole sequence.
\<close>

theorem peak_usage_follows_allocations:
  "(Call_reset \<notin> set calls \<longrightarrow>
      peak_usage (run calls stats) = Max (set (peak_usage stats # observed calls stats))) \<and>
   (Call_reset \<notin> set calls \<longrightarrow>
      peak_usage (run (before @ Call_reset # calls) stats) =
        Max (set (0 # observed calls stats_zero))) \<and>
   (allocating c \<longrightarrow> current_usage (apply_call c stats) \<le> peak_usage (apply_call c stats)) \<and>
   (\<not> allocating c \<and> c \<noteq> Call_reset \<longrightarrow> peak_usage (apply_call c stats) = peak_usage stats) \<and>
   (c \<noteq> Call_reset \<longrightarrow> peak_usage stats \<le> peak_usage (apply_call c stats)) \<and>
   (Call_reset \<notin> set calls \<longrightarrow> peak_usage stats \<le> peak_usage (run calls stats))"
proof -
  have "peak_usage (run (before @ Call_reset # calls) stats) =
        Max (set (0 # observed calls stats_zero))" if "Call_reset \<notin> set calls"
    using peak_is_Max_observed [OF that, of stats_zero]
    by (simp add: run_after_reset stats_zero_def)
  moreover have "peak_usage (apply_call c stats) = peak_usage stats"
    if "\<not> allocating c" and "c \<noteq> Call_reset"
    using that by (simp add: peak_after_call)
  ultimately show ?thesis
    using peak_is_Max_observed current_le_peak_after_allocating peak_monotone_call
      peak_monotone_run
    by blast
qed

theorem peak_usage_follows_allocations_witness:
  "Call_reset \<notin> set [Call_malloc (Block 1) (100 :: 64 word), Call_calloc (Block 2) 5 10,
      Call_realloc (Block 3) (Block 1) 250, Call_free (Block 2)] \<and>
   observed [Call_malloc (Block 1) (100 :: 64 word), Call_calloc (Block 2) 5 10,
      Call_realloc (Block 3) (Block 1) 250, Call_free (Block 2)] stats_zero = [100, 150] \<and>
   peak_usage (run [Call_malloc (Block 1) (100 :: 64 word), Call_calloc (Block 2) 5 10,
      Call_realloc (Block 3) (Block 1) 250, Call_free (Block 2)] stats_zero) = 150 \<and>
   peak_usage (run ([Call_malloc (Block 9) 1000] @ Call_reset #
      [Call_malloc (Block 1) (100 :: 64 word), Call_calloc (Block 2) 5 10,
       Call_realloc (Block 3) (Block 1) 250, Call_free (Block 2)]) stats_zero) = 150 \<and>
   allocating (Call_malloc (Block 1) (100 :: 64 word)) \<and>
   current_usage (apply_call (Call_malloc (Block 1) (100 :: 64 word)) stats_zero)
     \<le> peak_usage (apply_call (Call_malloc (Block 1) (100 :: 64 word)) stats_zero) \<and>
   \<not> allocating (Call_realloc (Block 3) (Block 1) (250 :: 64 word)) \<and>
   Call_realloc (Block 3) (Block 1) (250 :: 64 word) \<noteq> Call_reset \<and>
   peak_usage (apply_call (Call_realloc (Block 3) (Block 1) (250 :: 64 word)) stats_zero) =
     peak_usage (stats_zero :: 64 Memory_Stats) \<and>
   Call_malloc (Block 1) (100 :: 64 word) \<noteq> Call_reset \<and>
   peak_usage (stats_zero :: 64 Memory_Stats)
     \<le> peak_usage (apply_call (Call_malloc (Block 1) (100 :: 64 word)) stats_zero) \<and>
   peak_usage (stats_zero :: 64 Memory_Stats)
     \<le> peak_usage (run [Call_malloc (Block 1) (100 :: 64 word), Call_calloc (Block 2) 5 10,
          Call_realloc (Block 3) (Block 1) 250, Call_free (Block 2)] stats_zero)"
  using
    peak_usage_follows_allocations
      [of "[Call_malloc (Block 1) (100 :: 64 word), Call_calloc (Block 2) 5 10,
            Call_realloc (Block 3) (Block 1) 250, Call_free (Block 2)]"
          stats_zero "[Call_malloc (Block 9) 1000]" "Call_malloc (Block 1) (100 :: 64 word)"]
    peak_usage_follows_allocations
      [of "[]" "stats_zero :: 64 Memory_Stats" "[]"
          "Call_realloc (Block 3) (Block 1) (250 :: 64 word)"]
  by (simp add: ds_malloc_def ds_calloc_def ds_realloc_def ds_free_def stats_zero_def Let_def)

text \<open>
  The claim as first stated counts a successful \<open>ds_realloc\<close> among the calls after which
  \<open>peak_usage\<close> is at least \<open>current_usage\<close>. A first call \<open>ds_realloc(NULL, 10)\<close> that
  succeeds leaves \<open>current_usage = 10\<close> above \<open>peak_usage = 0\<close>.
\<close>

theorem realloc_leaves_peak_behind:
  "current_usage (run [Call_realloc (Block 1) NULL 10] (stats_zero :: 64 Memory_Stats)) = 10 \<and>
   peak_usage (run [Call_realloc (Block 1) NULL 10] (stats_zero :: 64 Memory_Stats)) = 0 \<and>
   \<not> current_usage (run [Call_realloc (Block 1) NULL 10] (stats_zero :: 64 Memory_Stats))
       \<le> peak_usage (run [Call_realloc (Block 1) NULL 10] (stats_zero :: 64 Memory_Stats))"
  by (simp add: run_def ds_realloc_def stats_zero_def)

end
